theory Spec2Isabelle
  imports Main "HOL-Library.Multiset" "HOL-Library.AList"
begin

section \<open>Strings, regular expressions and parseInt\<close>

text \<open>
  A step is a \<^typ>\<open>string\<close>. The ten patterns of \<open>fetchNutrientData\<close> are all of the
  shape \<^verbatim>\<open>/Label: (\d+)unit \((\d+)%\)/i\<close>: literal characters and two capturing groups
  \<^verbatim>\<open>(\d+)\<close>. A pattern is the list of its atoms.
\<close>

datatype re_atom = Lit char | Digits

type_synonym regex = "re_atom list"

definition lits :: "string \<Rightarrow> regex" where
  "lits s = map Lit s"

text \<open>\<^verbatim>\<open>\d\<close> matches the ten ASCII digits only.\<close>

definition isDigit :: "char \<Rightarrow> bool" where
  "isDigit c = (48 \<le> (of_char c :: nat) \<and> (of_char c :: nat) \<le> 57)"

text \<open>
  The flag \<^verbatim>\<open>i\<close> compares characters after canonicalisation (upper-casing). Every
  literal of the ten patterns is ASCII, and a character outside ASCII never canonicalises
  to an ASCII one, so only the letters a-z are folded here.
\<close>

definition canonicalize :: "char \<Rightarrow> char" where
  "canonicalize c =
     (if 97 \<le> (of_char c :: nat) \<and> (of_char c :: nat) \<le> 122
      then char_of ((of_char c :: nat) - 32) else c)"

fun first_some :: "'a option list \<Rightarrow> 'a option" where
  "first_some [] = None"
| "first_some (None # xs) = first_some xs"
| "first_some (Some x # xs) = Some x"

text \<open>
  Matching a pattern at the start of a string: the captures and the unread rest.
  \<^verbatim>\<open>\d+\<close> is greedy: it first takes every digit there is and gives digits back, one at
  a time, while the rest of the pattern fails.
\<close>

fun match_here :: "regex \<Rightarrow> string \<Rightarrow> (string list \<times> string) option" where
  "match_here [] s = Some ([], s)"
| "match_here (Lit c # r) s =
     (case s of
        [] \<Rightarrow> None
      | x # xs \<Rightarrow> if canonicalize x = canonicalize c then match_here r xs else None)"
| "match_here (Digits # r) s =
     first_some
       (map (\<lambda>n. case match_here r (drop n s) of
                    None \<Rightarrow> None
                  | Some (caps, rest) \<Rightarrow> Some (take n s # caps, rest))
            (rev [1 ..< Suc (length (takeWhile isDigit s))]))"

text \<open>
  \<^verbatim>\<open>step.match(re)\<close> for a pattern without the flag \<^verbatim>\<open>g\<close>: the leftmost match, as
  the array of the matched text (index 0) and the captures (indices 1 and 2), or null.
\<close>

fun js_match :: "regex \<Rightarrow> string \<Rightarrow> string list option" where
  "js_match re [] =
     (case match_here re [] of
        None \<Rightarrow> None
      | Some (caps, rest) \<Rightarrow> Some ([] # caps))"
| "js_match re (c # t) =
     (case match_here re (c # t) of
        None \<Rightarrow> js_match re t
      | Some (caps, rest) \<Rightarrow>
          Some (take (length (c # t) - length rest) (c # t) # caps))"

text \<open>
  \<^verbatim>\<open>parseInt\<close> of a capture: the decimal value of its leading digits. A capture of
  \<^verbatim>\<open>(\d+)\<close> is a non-empty string of digits, so the NaN of \<^verbatim>\<open>parseInt\<close> is out of
  reach. JavaScript numbers are doubles; the integers here are exact (the two agree
  below \<open>2^53\<close>).
\<close>

definition digitVal :: "char \<Rightarrow> int" where
  "digitVal c = int (of_char c) - 48"

definition parseInt :: "string \<Rightarrow> int" where
  "parseInt s = foldl (\<lambda>acc c. acc * 10 + digitVal c) 0 (takeWhile isDigit s)"

section \<open>The data model\<close>

record NutrientField =
  value_f :: int
  unit :: string
  percentage :: int

record Micronutrients =
  vitamin_a :: NutrientField
  vitamin_c :: NutrientField
  calcium :: NutrientField
  iron :: NutrientField
  potassium :: NutrientField
  sodium :: NutrientField

record Macronutrients =
  protein :: NutrientField
  carbs :: NutrientField
  fat :: NutrientField
  fiber :: NutrientField

text \<open>
  The pair of objects \<open>micronutrients\<close>, \<open>macronutrients\<close>: the type of \<open>averageData\<close>,
  and the part a meal shares with it.
\<close>

record Nutrients =
  micronutrients :: Micronutrients
  macronutrients :: Macronutrients

record Meal = Nutrients +
  id_m :: string
  timestamp :: string

record NutrientData =
  day :: string
  averageData :: Nutrients
  meals :: "Meal list"

section \<open>Extraction from the steps of a recipe\<close>

definition vitaminA_re :: regex where
  "vitaminA_re = lits ''Vitamin A: '' @ [Digits] @ lits ''mcg ('' @ [Digits] @ lits ''%)''"

definition vitaminC_re :: regex where
  "vitaminC_re = lits ''Vitamin C: '' @ [Digits] @ lits ''mg ('' @ [Digits] @ lits ''%)''"

definition calcium_re :: regex where
  "calcium_re = lits ''Calcium: '' @ [Digits] @ lits ''mg ('' @ [Digits] @ lits ''%)''"

definition iron_re :: regex where
  "iron_re = lits ''Iron: '' @ [Digits] @ lits ''mg ('' @ [Digits] @ lits ''%)''"

definition potassium_re :: regex where
  "potassium_re = lits ''Potassium: '' @ [Digits] @ lits ''mg ('' @ [Digits] @ lits ''%)''"

definition sodium_re :: regex where
  "sodium_re = lits ''Sodium: '' @ [Digits] @ lits ''mg ('' @ [Digits] @ lits ''%)''"

definition protein_re :: regex where
  "protein_re = lits ''Protein: '' @ [Digits] @ lits ''g ('' @ [Digits] @ lits ''%)''"

definition carbs_re :: regex where
  "carbs_re = lits ''Carbs: '' @ [Digits] @ lits ''g ('' @ [Digits] @ lits ''%)''"

definition fat_re :: regex where
  "fat_re = lits ''Fat: '' @ [Digits] @ lits ''g ('' @ [Digits] @ lits ''%)''"

definition fiber_re :: regex where
  "fiber_re = lits ''Fiber: '' @ [Digits] @ lits ''g ('' @ [Digits] @ lits ''%)''"

text \<open>The object literal built from a match array \<open>m\<close> and the unit written in the code.\<close>

definition fieldOfMatch :: "string \<Rightarrow> string list \<Rightarrow> NutrientField" where
  "fieldOfMatch u m = \<lparr>value_f = parseInt (m ! 1), unit = u, percentage = parseInt (m ! 2)\<rparr>"

definition initialMicronutrients :: Micronutrients where
  "initialMicronutrients =
     \<lparr>vitamin_a = \<lparr>value_f = 0, unit = ''mcg'', percentage = 0\<rparr>,
      vitamin_c = \<lparr>value_f = 0, unit = ''mg'', percentage = 0\<rparr>,
      calcium = \<lparr>value_f = 0, unit = ''mg'', percentage = 0\<rparr>,
      iron = \<lparr>value_f = 0, unit = ''mg'', percentage = 0\<rparr>,
      potassium = \<lparr>value_f = 0, unit = ''mg'', percentage = 0\<rparr>,
      sodium = \<lparr>value_f = 0, unit = ''mg'', percentage = 0\<rparr>\<rparr>"

definition initialMacronutrients :: Macronutrients where
  "initialMacronutrients =
     \<lparr>protein = \<lparr>value_f = 0, unit = ''g'', percentage = 0\<rparr>,
      carbs = \<lparr>value_f = 0, unit = ''g'', percentage = 0\<rparr>,
      fat = \<lparr>value_f = 0, unit = ''g'', percentage = 0\<rparr>,
      fiber = \<lparr>value_f = 0, unit = ''g'', percentage = 0\<rparr>\<rparr>"

definition initialNutrients :: Nutrients where
  "initialNutrients =
     \<lparr>micronutrients = initialMicronutrients, macronutrients = initialMacronutrients\<rparr>"

text \<open>The body of \<open>recipe.steps.forEach\<close>: ten matches, each overwriting its field.\<close>

definition extractMicro :: "string \<Rightarrow> Micronutrients \<Rightarrow> Micronutrients" where
  "extractMicro step mi0 =
     (let mi1 = (case js_match vitaminA_re step of
                   None \<Rightarrow> mi0 | Some m \<Rightarrow> mi0\<lparr>vitamin_a := fieldOfMatch ''mcg'' m\<rparr>);
          mi2 = (case js_match vitaminC_re step of
                   None \<Rightarrow> mi1 | Some m \<Rightarrow> mi1\<lparr>vitamin_c := fieldOfMatch ''mg'' m\<rparr>);
          mi3 = (case js_match calcium_re step of
                   None \<Rightarrow> mi2 | Some m \<Rightarrow> mi2\<lparr>calcium := fieldOfMatch ''mg'' m\<rparr>);
          mi4 = (case js_match iron_re step of
                   None \<Rightarrow> mi3 | Some m \<Rightarrow> mi3\<lparr>iron := fieldOfMatch ''mg'' m\<rparr>);
          mi5 = (case js_match potassium_re step of
                   None \<Rightarrow> mi4 | Some m \<Rightarrow> mi4\<lparr>potassium := fieldOfMatch ''mg'' m\<rparr>);
          mi6 = (case js_match sodium_re step of
                   None \<Rightarrow> mi5 | Some m \<Rightarrow> mi5\<lparr>sodium := fieldOfMatch ''mg'' m\<rparr>)
      in mi6)"

definition extractMacro :: "string \<Rightarrow> Macronutrients \<Rightarrow> Macronutrients" where
  "extractMacro step ma0 =
     (let ma1 = (case js_match protein_re step of
                   None \<Rightarrow> ma0 | Some m \<Rightarrow> ma0\<lparr>protein := fieldOfMatch ''g'' m\<rparr>);
          ma2 = (case js_match carbs_re step of
                   None \<Rightarrow> ma1 | Some m \<Rightarrow> ma1\<lparr>carbs := fieldOfMatch ''g'' m\<rparr>);
          ma3 = (case js_match fat_re step of
                   None \<Rightarrow> ma2 | Some m \<Rightarrow> ma2\<lparr>fat := fieldOfMatch ''g'' m\<rparr>);
          ma4 = (case js_match fiber_re step of
                   None \<Rightarrow> ma3 | Some m \<Rightarrow> ma3\<lparr>fiber := fieldOfMatch ''g'' m\<rparr>)
      in ma4)"

definition extractStep :: "string \<Rightarrow> Nutrients \<Rightarrow> Nutrients" where
  "extractStep step n =
     \<lparr>micronutrients = extractMicro step (micronutrients n),
      macronutrients = extractMacro step (macronutrients n)\<rparr>"

definition extractSteps :: "string list \<Rightarrow> Nutrients" where
  "extractSteps ss = fold extractStep ss initialNutrients"

definition hasNutrientData :: "Nutrients \<Rightarrow> bool" where
  "hasNutrientData n =
     (value_f (vitamin_a (micronutrients n)) > 0 \<or>
      value_f (vitamin_c (micronutrients n)) > 0 \<or>
      value_f (calcium (micronutrients n)) > 0 \<or>
      value_f (iron (micronutrients n)) > 0 \<or>
      value_f (potassium (micronutrients n)) > 0 \<or>
      value_f (sodium (micronutrients n)) > 0 \<or>
      value_f (protein (macronutrients n)) > 0 \<or>
      value_f (carbs (macronutrients n)) > 0 \<or>
      value_f (fat (macronutrients n)) > 0 \<or>
      value_f (fiber (macronutrients n)) > 0)"

section \<open>Dates and their formats\<close>

text \<open>
  \<open>new Date(recipe.created_at)\<close> read through its local-time getters: the calendar
  fields that \<open>format\<close> prints. The timestamp is assigned by the store, so the date is
  a valid one.
\<close>

datatype month = Jan | Feb | Mar | Apr | May | Jun | Jul | Aug | Sep | Oct | Nov | Dec

record Date =
  year :: nat
  month :: month
  date :: nat
  hours :: nat
  minutes :: nat

fun monthIndex :: "month \<Rightarrow> nat" where
  "monthIndex Jan = 0" | "monthIndex Feb = 1" | "monthIndex Mar = 2"
| "monthIndex Apr = 3" | "monthIndex May = 4" | "monthIndex Jun = 5"
| "monthIndex Jul = 6" | "monthIndex Aug = 7" | "monthIndex Sep = 8"
| "monthIndex Oct = 9" | "monthIndex Nov = 10" | "monthIndex Dec = 11"

fun monthName :: "month \<Rightarrow> string" where
  "monthName Jan = ''Jan''" | "monthName Feb = ''Feb''" | "monthName Mar = ''Mar''"
| "monthName Apr = ''Apr''" | "monthName May = ''May''" | "monthName Jun = ''Jun''"
| "monthName Jul = ''Jul''" | "monthName Aug = ''Aug''" | "monthName Sep = ''Sep''"
| "monthName Oct = ''Oct''" | "monthName Nov = ''Nov''" | "monthName Dec = ''Dec''"

definition months :: "month list" where
  "months = [Jan, Feb, Mar, Apr, May, Jun, Jul, Aug, Sep, Oct, Nov, Dec]"

definition digitChar :: "nat \<Rightarrow> char" where
  "digitChar n = char_of (48 + n mod 10)"

fun showNat :: "nat \<Rightarrow> string" where
  "showNat n = (if n < 10 then [digitChar n] else showNat (n div 10) @ [digitChar n])"

declare showNat.simps [simp del]

definition addLeadingZeros :: "nat \<Rightarrow> nat \<Rightarrow> string" where
  "addLeadingZeros n len = replicate (len - length (showNat n)) (CHR ''0'') @ showNat n"

text \<open>\<open>format(date, 'yyyy-MM-dd')\<close>, \<open>format(date, 'MMM d')\<close> and \<open>format(date, 'h:mm a')\<close>.\<close>

definition format_yyyy_MM_dd :: "Date \<Rightarrow> string" where
  "format_yyyy_MM_dd d =
     addLeadingZeros (year d) 4 @ ''-'' @ addLeadingZeros (monthIndex (month d) + 1) 2
       @ ''-'' @ addLeadingZeros (date d) 2"

definition format_MMM_d :: "Date \<Rightarrow> string" where
  "format_MMM_d d = monthName (month d) @ '' '' @ showNat (date d)"

definition format_h_mm_a :: "Date \<Rightarrow> string" where
  "format_h_mm_a d =
     showNat (if hours d mod 12 = 0 then 12 else hours d mod 12) @ '':''
       @ addLeadingZeros (minutes d) 2 @ '' '' @ (if hours d < 12 then ''AM'' else ''PM'')"

text \<open>
  \<open>new Date(`${day} 2025`).getTime()\<close> for a label of the format \<open>MMM d\<close>: midnight of
  that month and day in the year 2025, in milliseconds (the year 2025 has 365 days; a
  day number beyond the month's end runs into the next month, so \<open>Feb 29\<close> is March 1).
  A label that is not of this format gives an invalid date, whose time is NaN: \<open>None\<close>.
  The time is taken in UTC; another time zone shifts every time by its offset and leaves
  their order as it is.
\<close>

definition daysBeforeMonth2025 :: "month \<Rightarrow> int" where
  "daysBeforeMonth2025 m =
     [0, 31, 59, 90, 120, 151, 181, 212, 243, 273, 304, 334] ! monthIndex m"

definition labelTime2025 :: "string \<Rightarrow> int option" where
  "labelTime2025 label =
     (let name = takeWhile (\<lambda>c. c \<noteq> CHR '' '') label;
          rest = drop (Suc (length name)) label
      in case filter (\<lambda>m. monthName m = name) months of
           [] \<Rightarrow> None
         | m # _ \<Rightarrow>
             if rest = [] \<or> \<not> list_all isDigit rest then None
             else Some (1735689600000
                        + (daysBeforeMonth2025 m + parseInt rest - 1) * 86400000))"

section \<open>Grouping by day, and the sorted history\<close>

record Recipe =
  id_r :: string
  created_at :: Date
  steps :: "string list option"

text \<open>
  \<open>dailyData\<close> is a JavaScript \<open>Map\<close>: its entries are kept in the order in which their
  keys were first set, and \<open>forEach\<close> visits them in that order. An association list
  with \<^const>\<open>AList.update\<close> (a new key goes last) and \<^const>\<open>AList.map_entry\<close> does
  the same.
\<close>

type_synonym dailyMap = "(string \<times> NutrientData) list"

definition has :: "dailyMap \<Rightarrow> string \<Rightarrow> bool" where
  "has dailyData k = (map_of dailyData k \<noteq> None)"

text \<open>The body of \<open>recipesData.forEach\<close>: one recipe, and the map it leaves.\<close>

definition processRecipe :: "Recipe \<Rightarrow> dailyMap \<Rightarrow> dailyMap" where
  "processRecipe recipe dailyData =
     (case steps recipe of
        None \<Rightarrow> dailyData
      | Some ss \<Rightarrow>
          if length ss = 0 then dailyData
          else
            let n = extractSteps ss in
            if \<not> hasNutrientData n then dailyData
            else
              let d = created_at recipe;
                  dayKey = format_yyyy_MM_dd d;
                  dailyData1 =
                    (if \<not> has dailyData dayKey
                     then AList.update dayKey
                            \<lparr>day = format_MMM_d d,
                             averageData =
                               \<lparr>micronutrients = micronutrients n,
                                macronutrients = macronutrients n\<rparr>,
                             meals = []\<rparr> dailyData
                     else dailyData)
              in AList.map_entry dayKey
                   (\<lambda>dayData. dayData\<lparr>meals := meals dayData @
                      [\<lparr>micronutrients = micronutrients n,
                        macronutrients = macronutrients n,
                        id_m = id_r recipe,
                        timestamp = format_h_mm_a d\<rparr>]\<rparr>)
                   dailyData1)"

definition buildDailyData :: "Recipe list \<Rightarrow> dailyMap" where
  "buildDailyData recipesData = fold processRecipe recipesData []"

text \<open>The second loop: one history entry for each day that has a meal.\<close>

definition historyEntry :: "NutrientData \<Rightarrow> NutrientData" where
  "historyEntry dayData =
     \<lparr>day = day dayData,
      averageData =
        \<lparr>micronutrients = micronutrients (meals dayData ! 0),
         macronutrients = macronutrients (meals dayData ! 0)\<rparr>,
      meals = meals dayData\<rparr>"

definition collectHistory :: "dailyMap \<Rightarrow> NutrientData list" where
  "collectHistory dailyData =
     map historyEntry (filter (\<lambda>dayData. length (meals dayData) > 0) (map snd dailyData))"

text \<open>
  The comparator of the sort, \<open>dateB.getTime() - dateA.getTime()\<close>; a NaN result counts
  as 0. \<open>Array.prototype.sort\<close> is stable: an insertion sort that puts an element
  before the first one it does not come after.
\<close>

definition compareDays :: "NutrientData \<Rightarrow> NutrientData \<Rightarrow> int" where
  "compareDays a b =
     (case (labelTime2025 (day a), labelTime2025 (day b)) of
        (Some dateA, Some dateB) \<Rightarrow> dateB - dateA
      | _ \<Rightarrow> 0)"

fun insertBy :: "('a \<Rightarrow> 'a \<Rightarrow> int) \<Rightarrow> 'a \<Rightarrow> 'a list \<Rightarrow> 'a list" where
  "insertBy cmp x [] = [x]"
| "insertBy cmp x (y # ys) = (if cmp x y \<le> 0 then x # y # ys else y # insertBy cmp x ys)"

definition sortBy :: "('a \<Rightarrow> 'a \<Rightarrow> int) \<Rightarrow> 'a list \<Rightarrow> 'a list" where
  "sortBy cmp xs = foldr (insertBy cmp) xs []"

definition buildHistory :: "Recipe list \<Rightarrow> NutrientData list" where
  "buildHistory recipesData = sortBy compareDays (collectHistory (buildDailyData recipesData))"

section \<open>The component's state and one run of fetchNutrientData\<close>

text \<open>
  The state the run touches: the history shown, the loading indicator, and what
  \<open>console.error\<close> has received (the informational \<open>console.log\<close> lines are left out).
  The store answers with \<open>data\<close> (possibly null) and \<open>error\<close> (null on success).
\<close>

record State =
  nutrientHistory :: "NutrientData list"
  loading :: bool
  errorLog :: "string list"

record Response =
  data :: "Recipe list option"
  error :: "string option"

definition fetchNutrientData :: "bool \<Rightarrow> Response \<Rightarrow> State \<Rightarrow> State" where
  "fetchNutrientData user response st =
     (if \<not> user then st
      else
        let st1 = st\<lparr>loading := True\<rparr> in
        case error response of
          Some e \<Rightarrow> (st1\<lparr>errorLog := errorLog st1 @ [e]\<rparr>)\<lparr>loading := False\<rparr>
        | None \<Rightarrow>
            (case data response of
               None \<Rightarrow> (st1\<lparr>nutrientHistory := []\<rparr>)\<lparr>loading := False\<rparr>
             | Some recipesData \<Rightarrow>
                 if length recipesData = 0
                 then (st1\<lparr>nutrientHistory := []\<rparr>)\<lparr>loading := False\<rparr>
                 else (st1\<lparr>nutrientHistory := buildHistory recipesData\<rparr>)\<lparr>loading := False\<rparr>))"

section \<open>Vocabulary for the properties\<close>

text \<open>
  The ten nutrient keys, each with the pattern and the unit the code writes for it, and
  the field it names in a pair of nutrient objects (an \<open>averageData\<close> or a meal).
\<close>

datatype nutrient =
  Vitamin_A | Vitamin_C | Calcium | Iron | Potassium | Sodium | Protein | Carbs | Fat | Fiber

fun pattern :: "nutrient \<Rightarrow> regex" where
  "pattern Vitamin_A = vitaminA_re"
| "pattern Vitamin_C = vitaminC_re"
| "pattern Calcium = calcium_re"
| "pattern Iron = iron_re"
| "pattern Potassium = potassium_re"
| "pattern Sodium = sodium_re"
| "pattern Protein = protein_re"
| "pattern Carbs = carbs_re"
| "pattern Fat = fat_re"
| "pattern Fiber = fiber_re"

fun nutrientLabel :: "nutrient \<Rightarrow> string" where
  "nutrientLabel Vitamin_A = ''Vitamin A''"
| "nutrientLabel Vitamin_C = ''Vitamin C''"
| "nutrientLabel Calcium = ''Calcium''"
| "nutrientLabel Iron = ''Iron''"
| "nutrientLabel Potassium = ''Potassium''"
| "nutrientLabel Sodium = ''Sodium''"
| "nutrientLabel Protein = ''Protein''"
| "nutrientLabel Carbs = ''Carbs''"
| "nutrientLabel Fat = ''Fat''"
| "nutrientLabel Fiber = ''Fiber''"

fun canonicalUnit :: "nutrient \<Rightarrow> string" where
  "canonicalUnit Vitamin_A = ''mcg''"
| "canonicalUnit Vitamin_C = ''mg''"
| "canonicalUnit Calcium = ''mg''"
| "canonicalUnit Iron = ''mg''"
| "canonicalUnit Potassium = ''mg''"
| "canonicalUnit Sodium = ''mg''"
| "canonicalUnit Protein = ''g''"
| "canonicalUnit Carbs = ''g''"
| "canonicalUnit Fat = ''g''"
| "canonicalUnit Fiber = ''g''"

fun getField :: "nutrient \<Rightarrow> 'a Nutrients_scheme \<Rightarrow> NutrientField" where
  "getField Vitamin_A n = vitamin_a (micronutrients n)"
| "getField Vitamin_C n = vitamin_c (micronutrients n)"
| "getField Calcium n = calcium (micronutrients n)"
| "getField Iron n = iron (micronutrients n)"
| "getField Potassium n = potassium (micronutrients n)"
| "getField Sodium n = sodium (micronutrients n)"
| "getField Protein n = protein (macronutrients n)"
| "getField Carbs n = carbs (macronutrients n)"
| "getField Fat n = fat (macronutrients n)"
| "getField Fiber n = fiber (macronutrients n)"

text \<open>
  What \<open>processRecipe\<close> computes for one recipe: its extracted values (the zero defaults
  when it has no steps), whether they pass \<open>hasNutrientData\<close>, its day key, and the meal
  it pushes.
\<close>

definition nutrientsOf :: "Recipe \<Rightarrow> Nutrients" where
  "nutrientsOf recipe = extractSteps (case steps recipe of None \<Rightarrow> [] | Some ss \<Rightarrow> ss)"

definition qualifies :: "Recipe \<Rightarrow> bool" where
  "qualifies recipe = hasNutrientData (nutrientsOf recipe)"

definition dayKeyOf :: "Recipe \<Rightarrow> string" where
  "dayKeyOf recipe = format_yyyy_MM_dd (created_at recipe)"

definition mealOf :: "Recipe \<Rightarrow> Meal" where
  "mealOf recipe =
     \<lparr>micronutrients = micronutrients (nutrientsOf recipe),
      macronutrients = macronutrients (nutrientsOf recipe),
      id_m = id_r recipe,
      timestamp = format_h_mm_a (created_at recipe)\<rparr>"

text \<open>The nutrient objects of an output: each day's \<open>averageData\<close> and each of its meals.\<close>

definition outputNutrients :: "NutrientData list \<Rightarrow> Nutrients list" where
  "outputNutrients out =
     concat (map (\<lambda>d. averageData d # map Nutrients.truncate (meals d)) out)"

text \<open>
  The qualifying recipes of one day key, in processing order; the entry the first loop
  holds for that key; and the day keys in the order of their first qualifying recipe.
\<close>

definition recipesOfDay :: "string \<Rightarrow> Recipe list \<Rightarrow> Recipe list" where
  "recipesOfDay k recipesData = filter (\<lambda>r. qualifies r \<and> dayKeyOf r = k) recipesData"

definition dayEntry :: "string \<Rightarrow> Recipe list \<Rightarrow> NutrientData" where
  "dayEntry k recipesData =
     \<lparr>day = format_MMM_d (created_at (hd (recipesOfDay k recipesData))),
      averageData = nutrientsOf (hd (recipesOfDay k recipesData)),
      meals = map mealOf (recipesOfDay k recipesData)\<rparr>"

definition dayKeys :: "Recipe list \<Rightarrow> string list" where
  "dayKeys recipesData = rev (remdups (rev (map dayKeyOf (filter qualifies recipesData))))"

section \<open>The sort keeps the entries\<close>

lemma mset_insertBy: "mset (insertBy cmp x xs) = add_mset x (mset xs)"
  by (induction xs) auto

lemma mset_sortBy: "mset (sortBy cmp xs) = mset xs"
  unfolding sortBy_def by (induction xs) (auto simp: mset_insertBy)

lemma set_sortBy: "set (sortBy cmp xs) = set xs"
  using mset_sortBy [of cmp xs] by (metis set_mset_mset)

lemma set_buildHistory:
  "set (buildHistory rs) =
     historyEntry ` {d \<in> snd ` set (buildDailyData rs). meals d \<noteq> []}"
  by (auto simp: buildHistory_def set_sortBy collectHistory_def)

lemma meals_historyEntry: "meals (historyEntry d) = meals d"
  by (simp add: historyEntry_def)

section \<open>One step, one field\<close>

lemma getField_extractStep:
  "getField k (extractStep s n) =
     (case js_match (pattern k) s of
        None \<Rightarrow> getField k n
      | Some m \<Rightarrow> fieldOfMatch (canonicalUnit k) m)"
  by (cases k) (simp_all add: extractStep_def extractMicro_def extractMacro_def Let_def
      split: option.splits)

lemma digitVal_nonneg: "isDigit c \<Longrightarrow> 0 \<le> digitVal c"
  by (simp add: isDigit_def digitVal_def)

lemma foldl_digits_nonneg:
  "list_all isDigit cs \<Longrightarrow> 0 \<le> acc \<Longrightarrow> 0 \<le> foldl (\<lambda>acc c. acc * 10 + digitVal c) acc cs"
  by (induction cs arbitrary: acc) (auto simp: digitVal_nonneg)

lemma parseInt_nonneg: "0 \<le> parseInt s"
  unfolding parseInt_def
  by (rule foldl_digits_nonneg) (simp_all add: list_all_iff, meson set_takeWhileD)

section \<open>The map of days in closed form\<close>

lemma hasNutrientData_initial: "\<not> hasNutrientData initialNutrients"
  by (simp add: hasNutrientData_def initialNutrients_def initialMicronutrients_def
      initialMacronutrients_def)

lemma update_fresh: "map_of al k = None \<Longrightarrow> AList.update k v al = al @ [(k, v)]"
  by (induction al) auto

lemma map_entry_snoc_fresh:
  "map_of al k = None \<Longrightarrow> AList.map_entry k f (al @ [(k, v)]) = al @ [(k, f v)]"
  by (induction al) auto

lemma processRecipe_unfold:
  "processRecipe r dd =
     (if \<not> qualifies r then dd
      else if has dd (dayKeyOf r)
      then AList.map_entry (dayKeyOf r) (\<lambda>d. d\<lparr>meals := meals d @ [mealOf r]\<rparr>) dd
      else dd @ [(dayKeyOf r,
                  \<lparr>day = format_MMM_d (created_at r), averageData = nutrientsOf r,
                   meals = [mealOf r]\<rparr>)])"
proof (cases "steps r")
  case None
  then show ?thesis
    by (simp add: processRecipe_def qualifies_def nutrientsOf_def extractSteps_def
        hasNutrientData_initial)
next
  case (Some ss)
  show ?thesis
  proof (cases "ss = []")
    case True
    with Some show ?thesis
      by (simp add: processRecipe_def qualifies_def nutrientsOf_def extractSteps_def
          hasNutrientData_initial)
  next
    case False
    with Some show ?thesis
      by (simp add: processRecipe_def qualifies_def nutrientsOf_def Let_def has_def
          dayKeyOf_def mealOf_def update_fresh map_entry_snoc_fresh)
  qed
qed

lemma buildDailyData_snoc:
  "buildDailyData (rs @ [r]) = processRecipe r (buildDailyData rs)"
  by (simp add: buildDailyData_def)

lemma dayKeys_snoc:
  "dayKeys (rs @ [r]) =
     (if \<not> qualifies r then dayKeys rs
      else if dayKeyOf r \<in> set (dayKeys rs) then dayKeys rs
      else dayKeys rs @ [dayKeyOf r])"
  by (simp add: dayKeys_def)

lemma set_dayKeys: "set (dayKeys rs) = dayKeyOf ` {r \<in> set rs. qualifies r}"
  by (auto simp: dayKeys_def)

lemma distinct_dayKeys: "distinct (dayKeys rs)"
  by (simp add: dayKeys_def)

lemma recipesOfDay_nonempty: "k \<in> set (dayKeys rs) \<Longrightarrow> recipesOfDay k rs \<noteq> []"
  by (auto simp: set_dayKeys recipesOfDay_def filter_empty_conv)

lemma recipesOfDay_empty: "k \<notin> set (dayKeys rs) \<Longrightarrow> recipesOfDay k rs = []"
  by (auto simp: set_dayKeys recipesOfDay_def filter_empty_conv)

lemma map_entry_map:
  "distinct ks \<Longrightarrow>
   AList.map_entry k f (map (\<lambda>x. (x, e x)) ks) = map (\<lambda>x. (x, if x = k then f (e x) else e x)) ks"
  by (induction ks) auto

lemma dayEntry_snoc_other:
  "\<not> (qualifies r \<and> dayKeyOf r = k) \<Longrightarrow> dayEntry k (rs @ [r]) = dayEntry k rs"
  by (auto simp: dayEntry_def recipesOfDay_def)

lemma dayEntry_snoc_same:
  "qualifies r \<Longrightarrow> recipesOfDay (dayKeyOf r) rs \<noteq> [] \<Longrightarrow>
   dayEntry (dayKeyOf r) (rs @ [r]) =
     (dayEntry (dayKeyOf r) rs)\<lparr>meals := meals (dayEntry (dayKeyOf r) rs) @ [mealOf r]\<rparr>"
  by (simp add: dayEntry_def recipesOfDay_def)

lemma dayEntry_snoc_new:
  "qualifies r \<Longrightarrow> recipesOfDay (dayKeyOf r) rs = [] \<Longrightarrow>
   dayEntry (dayKeyOf r) (rs @ [r]) =
     \<lparr>day = format_MMM_d (created_at r), averageData = nutrientsOf r, meals = [mealOf r]\<rparr>"
  by (simp add: dayEntry_def recipesOfDay_def)

lemma buildDailyData_closed:
  "buildDailyData rs = map (\<lambda>k. (k, dayEntry k rs)) (dayKeys rs)"
proof (induction rs rule: rev_induct)
  case Nil
  show ?case by (simp add: buildDailyData_def dayKeys_def)
next
  case (snoc r rs)
  show ?case
  proof (cases "qualifies r")
    case False
    then show ?thesis
      by (simp add: buildDailyData_snoc processRecipe_unfold snoc.IH dayKeys_snoc
          dayEntry_snoc_other)
  next
    case q: True
    show ?thesis
    proof (cases "dayKeyOf r \<in> set (dayKeys rs)")
      case True
      then have h: "has (buildDailyData rs) (dayKeyOf r)"
        by (simp add: has_def snoc.IH map_of_map_restrict)
      have ne: "recipesOfDay (dayKeyOf r) rs \<noteq> []"
        using True by (rule recipesOfDay_nonempty)
      show ?thesis
        using q True h
        apply (simp add: buildDailyData_snoc processRecipe_unfold dayKeys_snoc)
        apply (simp add: snoc.IH map_entry_map distinct_dayKeys)
        apply (auto simp: dayEntry_snoc_same [OF q ne] dayEntry_snoc_other)
        done
    next
      case False
      then have h: "\<not> has (buildDailyData rs) (dayKeyOf r)"
        by (simp add: has_def snoc.IH map_of_map_restrict restrict_map_def)
      have e: "recipesOfDay (dayKeyOf r) rs = []"
        using False by (rule recipesOfDay_empty)
      have other: "\<And>k. k \<in> set (dayKeys rs) \<Longrightarrow> dayEntry k (rs @ [r]) = dayEntry k rs"
        using False by (intro dayEntry_snoc_other) auto
      show ?thesis
        using q False h
        by (simp add: buildDailyData_snoc processRecipe_unfold dayKeys_snoc snoc.IH
            dayEntry_snoc_new [OF q e] other)
    qed
  qed
qed

section \<open>The history in closed form\<close>

lemma truncate_mealOf: "Nutrients.truncate (mealOf r) = nutrientsOf r"
  by (simp add: mealOf_def Nutrients.truncate_def)

lemma historyEntry_dayEntry:
  "recipesOfDay k rs \<noteq> [] \<Longrightarrow> historyEntry (dayEntry k rs) = dayEntry k rs"
  by (cases "recipesOfDay k rs") (simp_all add: historyEntry_def dayEntry_def mealOf_def)

lemma meals_dayEntry_nonempty: "k \<in> set (dayKeys rs) \<Longrightarrow> meals (dayEntry k rs) \<noteq> []"
  using recipesOfDay_nonempty [of k rs] by (simp add: dayEntry_def)

lemma collectHistory_closed:
  "collectHistory (buildDailyData rs) = map (\<lambda>k. dayEntry k rs) (dayKeys rs)"
proof -
  have "filter (\<lambda>d. length (meals d) > 0) (map (\<lambda>k. dayEntry k rs) (dayKeys rs))
        = map (\<lambda>k. dayEntry k rs) (dayKeys rs)"
    using meals_dayEntry_nonempty [of _ rs] by (simp add: filter_id_conv)
  moreover have "map historyEntry (map (\<lambda>k. dayEntry k rs) (dayKeys rs))
        = map (\<lambda>k. dayEntry k rs) (dayKeys rs)"
    using recipesOfDay_nonempty [of _ rs] by (simp add: historyEntry_dayEntry)
  ultimately show ?thesis
    by (simp add: collectHistory_def buildDailyData_closed comp_def)
qed

lemma buildHistory_closed:
  "buildHistory rs = sortBy compareDays (map (\<lambda>k. dayEntry k rs) (dayKeys rs))"
  by (simp add: buildHistory_def collectHistory_closed)

lemma set_buildHistory_closed:
  "set (buildHistory rs) = (\<lambda>k. dayEntry k rs) ` set (dayKeys rs)"
  by (simp add: buildHistory_closed set_sortBy)

lemma mset_dayKeys: "mset (dayKeys rs) = mset (remdups (map dayKeyOf (filter qualifies rs)))"
  by (rule iffD1 [OF set_eq_iff_mset_eq_distinct])
     (simp_all add: distinct_dayKeys, simp add: dayKeys_def)

lemma hd_recipesOfDay:
  "k \<in> set (dayKeys rs) \<Longrightarrow> hd (recipesOfDay k rs) \<in> set rs \<and> qualifies (hd (recipesOfDay k rs))"
proof -
  assume "k \<in> set (dayKeys rs)"
  then have "recipesOfDay k rs \<noteq> []" by (rule recipesOfDay_nonempty)
  then have "hd (recipesOfDay k rs) \<in> set (recipesOfDay k rs)" by simp
  then show ?thesis by (simp add: recipesOfDay_def)
qed

lemma outputNutrients_subset:
  "set (outputNutrients (buildHistory rs)) \<subseteq> nutrientsOf ` {r \<in> set rs. qualifies r}"
proof
  fix n assume "n \<in> set (outputNutrients (buildHistory rs))"
  then obtain k where k: "k \<in> set (dayKeys rs)"
    and n: "n = averageData (dayEntry k rs) \<or> n \<in> Nutrients.truncate ` set (meals (dayEntry k rs))"
    by (auto simp: outputNutrients_def set_buildHistory_closed)
  from n show "n \<in> nutrientsOf ` {r \<in> set rs. qualifies r}"
  proof
    assume "n = averageData (dayEntry k rs)"
    then show ?thesis using hd_recipesOfDay [OF k] by (simp add: dayEntry_def)
  next
    assume "n \<in> Nutrients.truncate ` set (meals (dayEntry k rs))"
    then show ?thesis
      by (auto simp: dayEntry_def recipesOfDay_def truncate_mealOf)
  qed
qed

section \<open>What extraction keeps true of every field\<close>

lemma unit_fieldOfMatch: "unit (fieldOfMatch u m) = u"
  by (simp add: fieldOfMatch_def)

lemma unit_initial: "unit (getField k initialNutrients) = canonicalUnit k"
  by (cases k) (simp_all add: initialNutrients_def initialMicronutrients_def
      initialMacronutrients_def)

lemma unit_fold:
  "unit (getField k n) = canonicalUnit k \<Longrightarrow>
   unit (getField k (fold extractStep ss n)) = canonicalUnit k"
  by (induction ss arbitrary: n)
     (simp_all add: getField_extractStep unit_fieldOfMatch split: option.splits)

lemma unit_nutrientsOf: "unit (getField k (nutrientsOf r)) = canonicalUnit k"
  by (simp add: nutrientsOf_def extractSteps_def unit_fold unit_initial)

lemma nonneg_initial:
  "0 \<le> value_f (getField k initialNutrients) \<and> 0 \<le> percentage (getField k initialNutrients)"
  by (cases k) (simp_all add: initialNutrients_def initialMicronutrients_def
      initialMacronutrients_def)

lemma nonneg_fold:
  "0 \<le> value_f (getField k n) \<and> 0 \<le> percentage (getField k n) \<Longrightarrow>
   0 \<le> value_f (getField k (fold extractStep ss n))
   \<and> 0 \<le> percentage (getField k (fold extractStep ss n))"
  by (induction ss arbitrary: n)
     (simp_all add: getField_extractStep fieldOfMatch_def parseInt_nonneg split: option.splits)

lemma nonneg_nutrientsOf:
  "0 \<le> value_f (getField k (nutrientsOf r)) \<and> 0 \<le> percentage (getField k (nutrientsOf r))"
  unfolding nutrientsOf_def extractSteps_def by (rule nonneg_fold) (rule nonneg_initial)

section \<open>Which recipes give a meal\<close>

lemma concat_meals_collectHistory:
  "concat (map meals (collectHistory dd)) = concat (map (\<lambda>p. meals (snd p)) dd)"
  by (induction dd) (auto simp: collectHistory_def meals_historyEntry)

lemma mset_concat_map_sortBy:
  "mset (concat (map f (sortBy cmp xs))) = mset (concat (map f xs))"
proof -
  have "mset (concat (map f ys)) = (\<Sum>x\<in>#mset ys. mset (f x))" for ys
    by (induction ys) simp_all
  then show ?thesis by (simp add: mset_sortBy)
qed

lemma mset_meals_map_entry:
  "map_of dd k \<noteq> None \<Longrightarrow>
   mset (concat (map (\<lambda>p. meals (snd p))
          (AList.map_entry k (\<lambda>d. d\<lparr>meals := meals d @ [m]\<rparr>) dd)))
     = add_mset m (mset (concat (map (\<lambda>p. meals (snd p)) dd)))"
  by (induction dd) auto

lemma mset_meals_buildDailyData:
  "mset (concat (map (\<lambda>p. meals (snd p)) (buildDailyData rs)))
     = mset (map mealOf (filter qualifies rs))"
proof (induction rs rule: rev_induct)
  case Nil
  show ?case by (simp add: buildDailyData_def)
next
  case (snoc r rs)
  then show ?case
    by (simp add: buildDailyData_snoc processRecipe_unfold mset_meals_map_entry has_def)
qed

lemma mset_meals_buildHistory:
  "mset (concat (map meals (buildHistory rs))) = mset (map mealOf (filter qualifies rs))"
  by (simp add: buildHistory_def mset_concat_map_sortBy concat_meals_collectHistory
      mset_meals_buildDailyData)

lemma qualifies_iff:
  "qualifies r \<longleftrightarrow> (\<exists>k. 0 < value_f (getField k (nutrientsOf r)))"
proof
  assume "qualifies r"
  then consider "0 < value_f (getField Vitamin_A (nutrientsOf r))"
    | "0 < value_f (getField Vitamin_C (nutrientsOf r))"
    | "0 < value_f (getField Calcium (nutrientsOf r))"
    | "0 < value_f (getField Iron (nutrientsOf r))"
    | "0 < value_f (getField Potassium (nutrientsOf r))"
    | "0 < value_f (getField Sodium (nutrientsOf r))"
    | "0 < value_f (getField Protein (nutrientsOf r))"
    | "0 < value_f (getField Carbs (nutrientsOf r))"
    | "0 < value_f (getField Fat (nutrientsOf r))"
    | "0 < value_f (getField Fiber (nutrientsOf r))"
    by (auto simp: qualifies_def hasNutrientData_def)
  then show "\<exists>k. 0 < value_f (getField k (nutrientsOf r))"
    by cases blast+
next
  assume "\<exists>k. 0 < value_f (getField k (nutrientsOf r))"
  then obtain k where "0 < value_f (getField k (nutrientsOf r))" ..
  then show "qualifies r"
    by (cases k) (simp_all add: qualifies_def hasNutrientData_def)
qed

lemma getField_fold_no_match:
  "\<forall>s \<in> set ss. js_match (pattern k) s = None \<Longrightarrow>
   getField k (fold extractStep ss n) = getField k n"
  by (induction ss arbitrary: n) (simp_all add: getField_extractStep)

lemma no_match_not_qualifies:
  assumes "steps r = None \<or> steps r = Some []
           \<or> (\<exists>ss. steps r = Some ss \<and> (\<forall>s \<in> set ss. \<forall>k. js_match (pattern k) s = None))"
  shows "\<not> qualifies r"
proof -
  have "getField k (nutrientsOf r) = getField k initialNutrients" for k
    using assms
    by (auto simp: nutrientsOf_def extractSteps_def getField_fold_no_match)
  moreover have "value_f (getField k initialNutrients) = 0" for k
    by (cases k) (simp_all add: initialNutrients_def initialMicronutrients_def
        initialMacronutrients_def)
  ultimately show ?thesis by (simp add: qualifies_iff)
qed

lemma buildHistory_skip:
  "\<not> qualifies r \<Longrightarrow> buildHistory (xs @ r # ys) = buildHistory (xs @ ys)"
  by (simp add: buildHistory_def buildDailyData_def processRecipe_unfold)

section \<open>A pattern matched at the start of a step\<close>

lemma canonicalize_digit: "isDigit d \<Longrightarrow> canonicalize d = d"
  by (simp add: isDigit_def canonicalize_def)

lemma not_digit_canonicalize: "isDigit (canonicalize c) \<Longrightarrow> isDigit c"
  by (auto simp: isDigit_def canonicalize_def split: if_splits)

lemma canonicalize_eq_digit: "isDigit d \<Longrightarrow> canonicalize c = canonicalize d \<Longrightarrow> c = d"
proof -
  assume d: "isDigit d" and e: "canonicalize c = canonicalize d"
  then have "isDigit (canonicalize c)" by (simp add: canonicalize_digit)
  then have "isDigit c" by (rule not_digit_canonicalize)
  with d e show "c = d" by (simp add: canonicalize_digit)
qed

lemma map_canonicalize_digits:
  "list_all isDigit ds \<Longrightarrow> map canonicalize cs = map canonicalize ds \<Longrightarrow> cs = ds"
  by (induction ds arbitrary: cs) (auto dest: canonicalize_eq_digit)

lemma match_here_lits:
  "map canonicalize a' = map canonicalize a \<Longrightarrow>
   match_here (lits a @ r) (a' @ t) = match_here r t"
  by (induction a arbitrary: a') (auto simp: lits_def)

lemma takeWhile_digits:
  "list_all isDigit ds \<Longrightarrow> \<not> isDigit x \<Longrightarrow> takeWhile isDigit (ds @ x # t) = ds"
  by (induction ds) auto

lemma match_here_Digits_success:
  assumes "takeWhile isDigit s = ds" "ds \<noteq> []"
    and "match_here r (drop (length ds) s) = Some (caps, rest)"
  shows "match_here (Digits # r) s = Some (ds # caps, rest)"
proof -
  have n: "Suc 0 \<le> length ds"
    using assms(2) by (cases ds) simp_all
  have "rev [1 ..< Suc (length ds)] = length ds # rev [1 ..< length ds]"
    using n by simp
  moreover have "take (length ds) s = ds"
    using assms(1) by (metis takeWhile_eq_take)
  ultimately show ?thesis
    using assms by simp
qed

lemma pattern_shape:
  "pattern k = lits (nutrientLabel k @ '': '') @ Digits # lits (canonicalUnit k @ '' ('')
                 @ Digits # lits ''%)''"
  by (cases k) (simp_all add: vitaminA_re_def vitaminC_re_def calcium_re_def iron_re_def
      potassium_re_def sodium_re_def protein_re_def carbs_re_def fat_re_def fiber_re_def lits_def)

lemma not_digit_of_canonical:
  "canonicalize x = canonicalize c \<Longrightarrow> \<not> isDigit (canonicalize c) \<Longrightarrow> \<not> isDigit x"
  using canonicalize_digit by fastforce

lemma match_here_Digits_lits:
  assumes ds: "list_all isDigit ds" "ds \<noteq> []"
    and u: "map canonicalize u' = map canonicalize (c # u)" "\<not> isDigit (canonicalize c)"
    and m: "match_here r t = Some (caps, rest)"
  shows "match_here (Digits # lits (c # u) @ r) (ds @ u' @ t) = Some (ds # caps, rest)"
proof -
  from u(1) obtain x xs where u': "u' = x # xs" and x: "canonicalize x = canonicalize c"
    by (cases u') auto
  have nd: "\<not> isDigit x"
    using x u(2) by (rule not_digit_of_canonical)
  have tw: "takeWhile isDigit (ds @ u' @ t) = ds"
    using ds(1) nd by (simp add: u' takeWhile_digits)
  have "match_here (lits (c # u) @ r) (drop (length ds) (ds @ u' @ t)) = Some (caps, rest)"
    using u(1) m by (simp add: match_here_lits)
  with tw ds(2) show ?thesis
    by (rule match_here_Digits_success)
qed

lemma match_here_pattern:
  assumes l: "map canonicalize l' = map canonicalize (nutrientLabel k @ '': '')"
    and ds: "list_all isDigit ds" "ds \<noteq> []"
    and u: "map canonicalize u' = map canonicalize (canonicalUnit k @ '' ('')"
    and ps: "list_all isDigit ps" "ps \<noteq> []"
    and e: "map canonicalize e' = map canonicalize ''%)''"
  shows "match_here (pattern k) (l' @ ds @ u' @ ps @ e') = Some ([ds, ps], [])"
proof -
  have last: "match_here (lits ''%)'' @ []) (e' @ []) = Some ([], [])"
    using e by (simp only: match_here_lits match_here.simps)
  have "match_here (Digits # lits ''%)'' @ []) (ps @ e' @ []) = Some ([ps], [])"
    using ps e by (intro match_here_Digits_lits) (simp_all add: isDigit_def canonicalize_def)
  then have second: "match_here (Digits # lits ''%)'') (ps @ e') = Some ([ps], [])"
    by simp
  obtain c u0 where cu: "canonicalUnit k @ '' ('' = c # u0" and c: "\<not> isDigit (canonicalize c)"
    by (cases k) (simp_all add: isDigit_def canonicalize_def)
  have "match_here (Digits # lits (c # u0) @ Digits # lits ''%)'') (ds @ u' @ ps @ e')
          = Some ([ds, ps], [])"
    using ds u c second unfolding cu by (intro match_here_Digits_lits)
  then show ?thesis
    using l by (simp add: pattern_shape match_here_lits cu)
qed

lemma map_eq_appendD:
  "map f s = map f (a @ b) \<Longrightarrow> \<exists>a' b'. s = a' @ b' \<and> map f a' = map f a \<and> map f b' = map f b"
proof -
  assume "map f s = map f (a @ b)"
  then obtain a' b' where "s = a' @ b'" "map f a = map f a'" "map f b = map f b'"
    by (auto simp: map_eq_append_conv)
  then have "s = a' @ b' \<and> map f a' = map f a \<and> map f b' = map f b"
    by simp
  then show ?thesis by blast
qed

lemma js_match_whole:
  "match_here re s = Some (caps, []) \<Longrightarrow> s \<noteq> [] \<Longrightarrow> js_match re s = Some (s # caps)"
  by (cases s) simp_all

section \<open>Evaluating the definitions on concrete inputs\<close>

lemmas eval_defs =
  vitaminA_re_def vitaminC_re_def calcium_re_def iron_re_def potassium_re_def sodium_re_def
  protein_re_def carbs_re_def fat_re_def fiber_re_def lits_def
  isDigit_def canonicalize_def char_of_def bit_0 parseInt_def digitVal_def fieldOfMatch_def
  extractSteps_def extractStep_def extractMicro_def extractMacro_def
  initialNutrients_def initialMicronutrients_def initialMacronutrients_def hasNutrientData_def
  format_yyyy_MM_dd_def format_MMM_d_def format_h_mm_a_def addLeadingZeros_def showNat.simps
  digitChar_def labelTime2025_def months_def daysBeforeMonth2025_def
  processRecipe_def buildDailyData_def has_def collectHistory_def historyEntry_def
  compareDays_def sortBy_def buildHistory_def Let_def
  nutrientsOf_def qualifies_def dayKeyOf_def mealOf_def outputNutrients_def
  Nutrients.truncate_def

section \<open>The order of the days\<close>

text \<open>
  C1. The specification says that the output is sorted by calendar date, most recent
  day first: recipes dated 2025-01-01, 2025-01-03 and 2024-12-31 come out as
  2025-01-03, 2025-01-01, 2024-12-31. The comment on the sort says the same (newest
  first). The comparator reads each day label as a date of the year 2025, so a day of
  another year is placed by its month and day alone: for these three recipes, in the
  order the specification lists them and in the order the store returns them (latest
  first), the output order is Dec 31, Jan 3, Jan 1.
\<close>

theorem sort_reads_labels_in_2025:
  "map dayKeyOf
     [\<lparr>id_r = ''a'',
       created_at = \<lparr>year = 2025, month = Jan, date = 1, hours = 8, minutes = 0\<rparr>,
       steps = Some [''Protein: 10g (20%)'']\<rparr>,
      \<lparr>id_r = ''b'',
       created_at = \<lparr>year = 2025, month = Jan, date = 3, hours = 8, minutes = 0\<rparr>,
       steps = Some [''Protein: 10g (20%)'']\<rparr>,
      \<lparr>id_r = ''c'',
       created_at = \<lparr>year = 2024, month = Dec, date = 31, hours = 8, minutes = 0\<rparr>,
       steps = Some [''Protein: 10g (20%)'']\<rparr>]
     = [''2025-01-01'', ''2025-01-03'', ''2024-12-31'']
   \<and> map day (buildHistory
     [\<lparr>id_r = ''a'',
       created_at = \<lparr>year = 2025, month = Jan, date = 1, hours = 8, minutes = 0\<rparr>,
       steps = Some [''Protein: 10g (20%)'']\<rparr>,
      \<lparr>id_r = ''b'',
       created_at = \<lparr>year = 2025, month = Jan, date = 3, hours = 8, minutes = 0\<rparr>,
       steps = Some [''Protein: 10g (20%)'']\<rparr>,
      \<lparr>id_r = ''c'',
       created_at = \<lparr>year = 2024, month = Dec, date = 31, hours = 8, minutes = 0\<rparr>,
       steps = Some [''Protein: 10g (20%)'']\<rparr>])
     = [''Dec 31'', ''Jan 3'', ''Jan 1'']
   \<and> map day (buildHistory
     [\<lparr>id_r = ''b'',
       created_at = \<lparr>year = 2025, month = Jan, date = 3, hours = 8, minutes = 0\<rparr>,
       steps = Some [''Protein: 10g (20%)'']\<rparr>,
      \<lparr>id_r = ''a'',
       created_at = \<lparr>year = 2025, month = Jan, date = 1, hours = 8, minutes = 0\<rparr>,
       steps = Some [''Protein: 10g (20%)'']\<rparr>,
      \<lparr>id_r = ''c'',
       created_at = \<lparr>year = 2024, month = Dec, date = 31, hours = 8, minutes = 0\<rparr>,
       steps = Some [''Protein: 10g (20%)'']\<rparr>])
     = [''Dec 31'', ''Jan 3'', ''Jan 1'']"
proof -
  have x: "extractSteps [''Protein: 10g (20%)'']
           = initialNutrients\<lparr>macronutrients := initialMacronutrients
               \<lparr>protein := \<lparr>value_f = 10, unit = ''g'', percentage = 20\<rparr>\<rparr>\<rparr>"
    by (simp add: eval_defs)
  show ?thesis
    unfolding buildHistory_def buildDailyData_def processRecipe_def
    by (simp add: x) (simp add: eval_defs)
qed

section \<open>The entry of a day\<close>

text \<open>
  C2. The output holds one entry for each day key that has a qualifying recipe. Its
  \<open>averageData\<close> is the extracted values of the first qualifying recipe processed for
  that day, which is \<open>meals[0]\<close>, not an average over the day's meals; its \<open>meals\<close>
  are the meals of all the qualifying recipes of that day, in processing order.
\<close>

theorem day_entries:
  "mset (buildHistory recipesData) =
     mset (map (\<lambda>k. \<lparr>day = format_MMM_d (created_at (hd (recipesOfDay k recipesData))),
                      averageData = nutrientsOf (hd (recipesOfDay k recipesData)),
                      meals = map mealOf (recipesOfDay k recipesData)\<rparr>)
               (remdups (map dayKeyOf (filter qualifies recipesData))))
   \<and> (\<forall>d \<in> set (buildHistory recipesData).
         meals d \<noteq> [] \<and> averageData d = Nutrients.truncate (meals d ! 0))"
proof
  have "mset (buildHistory recipesData)
        = image_mset (\<lambda>k. dayEntry k recipesData) (mset (dayKeys recipesData))"
    by (simp add: buildHistory_closed mset_sortBy)
  then show "mset (buildHistory recipesData) =
     mset (map (\<lambda>k. \<lparr>day = format_MMM_d (created_at (hd (recipesOfDay k recipesData))),
                      averageData = nutrientsOf (hd (recipesOfDay k recipesData)),
                      meals = map mealOf (recipesOfDay k recipesData)\<rparr>)
               (remdups (map dayKeyOf (filter qualifies recipesData))))"
    by (simp add: mset_dayKeys dayEntry_def)
next
  show "\<forall>d \<in> set (buildHistory recipesData).
         meals d \<noteq> [] \<and> averageData d = Nutrients.truncate (meals d ! 0)"
  proof
    fix d assume "d \<in> set (buildHistory recipesData)"
    then obtain k where k: "k \<in> set (dayKeys recipesData)" and d: "d = dayEntry k recipesData"
      by (auto simp: set_buildHistory_closed)
    from k have "recipesOfDay k recipesData \<noteq> []" by (rule recipesOfDay_nonempty)
    then show "meals d \<noteq> [] \<and> averageData d = Nutrients.truncate (meals d ! 0)"
      by (cases "recipesOfDay k recipesData") (simp_all add: d dayEntry_def truncate_mealOf)
  qed
qed

theorem day_entries_witness:
  "(let out = buildHistory
       [\<lparr>id_r = ''a'',
         created_at = \<lparr>year = 2025, month = Jan, date = 3, hours = 13, minutes = 5\<rparr>,
         steps = Some [''Protein: 10g (20%)'']\<rparr>,
        \<lparr>id_r = ''b'',
         created_at = \<lparr>year = 2025, month = Jan, date = 3, hours = 9, minutes = 30\<rparr>,
         steps = Some [''Protein: 30g (60%)'']\<rparr>]
    in map day out = [''Jan 3'']
     \<and> map id_m (meals (hd out)) = [''a'', ''b'']
     \<and> map (\<lambda>m. value_f (protein (macronutrients m))) (meals (hd out)) = [10, 30]
     \<and> averageData (hd out) = Nutrients.truncate (meals (hd out) ! 0)
     \<and> value_f (protein (macronutrients (averageData (hd out)))) = 10)"
proof -
  let ?rs = "[\<lparr>id_r = ''a'',
         created_at = \<lparr>year = 2025, month = Jan, date = 3, hours = 13, minutes = 5\<rparr>,
         steps = Some [''Protein: 10g (20%)'']\<rparr>,
        \<lparr>id_r = ''b'',
         created_at = \<lparr>year = 2025, month = Jan, date = 3, hours = 9, minutes = 30\<rparr>,
         steps = Some [''Protein: 30g (60%)'']\<rparr>]"
  have e: "map day (buildHistory ?rs) = [''Jan 3'']"
    "map id_m (meals (hd (buildHistory ?rs))) = [''a'', ''b'']"
    "map (\<lambda>m. value_f (protein (macronutrients m))) (meals (hd (buildHistory ?rs))) = [10, 30]"
    "value_f (protein (macronutrients (averageData (hd (buildHistory ?rs))))) = 10"
    by (simp_all add: eval_defs)
  from e(1) have "buildHistory ?rs \<noteq> []"
    by auto
  then have "hd (buildHistory ?rs) \<in> set (buildHistory ?rs)"
    by simp
  with day_entries [of ?rs]
  have "averageData (hd (buildHistory ?rs))
          = Nutrients.truncate (meals (hd (buildHistory ?rs)) ! 0)"
    by blast
  with e show ?thesis
    by (simp add: Let_def)
qed

section \<open>Several matches for one nutrient\<close>

text \<open>
  C3. The specification says that when the steps of a recipe hold more than one match
  for a nutrient's pattern, its field ends as the last of these matches. A step holding
  two matches is read by \<open>match\<close> without the flag \<open>g\<close>, which returns the first
  one only: the step below holds a match for 10 and, after it, a match for 20, and the
  field ends as 10.
\<close>

theorem two_matches_in_one_step:
  "js_match protein_re ''Protein: 10g (10%), Protein: 20g (20%)''
     = Some [''Protein: 10g (10%)'', ''10'', ''10'']
   \<and> js_match protein_re (drop 18 ''Protein: 10g (10%), Protein: 20g (20%)'')
     = Some [''Protein: 20g (20%)'', ''20'', ''20'']
   \<and> getField Protein (extractSteps [''Protein: 10g (10%), Protein: 20g (20%)''])
     = \<lparr>value_f = 10, unit = ''g'', percentage = 10\<rparr>
   \<and> getField Protein (extractSteps [''Protein: 10g (10%), Protein: 20g (20%)''])
     \<noteq> \<lparr>value_f = 20, unit = ''g'', percentage = 20\<rparr>"
  by (simp add: eval_defs)

text \<open>
  C3, amended. The field of a nutrient is built from the match of the last step that
  matches its pattern, and within that step from the leftmost match (what \<open>js_match\<close>
  returns); it is the zero default when no step matches. Nothing is accumulated.
\<close>

theorem last_matching_step_wins:
  "getField k (extractSteps ss) =
     (if filter (\<lambda>s. js_match (pattern k) s \<noteq> None) ss = []
      then getField k initialNutrients
      else fieldOfMatch (canonicalUnit k)
             (the (js_match (pattern k) (last (filter (\<lambda>s. js_match (pattern k) s \<noteq> None) ss)))))"
  unfolding extractSteps_def
proof (induction ss rule: rev_induct)
  case Nil
  show ?case by simp
next
  case (snoc s ss)
  show ?case
    by (cases "js_match (pattern k) s") (simp_all add: getField_extractStep snoc.IH)
qed

theorem last_matching_step_wins_witness:
  "getField Protein (extractSteps [''Protein: 10g (10%)'', ''Protein: 20g (20%)''])
     = \<lparr>value_f = 20, unit = ''g'', percentage = 20\<rparr>"
proof -
  have m: "js_match protein_re ''Protein: 10g (10%)'' = Some [''Protein: 10g (10%)'', ''10'', ''10'']"
    "js_match protein_re ''Protein: 20g (20%)'' = Some [''Protein: 20g (20%)'', ''20'', ''20'']"
    by (simp_all add: eval_defs)
  have v: "parseInt ''20'' = 20"
    by (simp add: eval_defs)
  show ?thesis
    using last_matching_step_wins [of Protein "[''Protein: 10g (10%)'', ''Protein: 20g (20%)'']"]
    by (simp add: m v fieldOfMatch_def del: js_match.simps)
qed

section \<open>A step of the expected form\<close>

text \<open>
  C4. A step that is, up to the case of its letters, a nutrient's label, a colon and a
  space, a number, the nutrient's unit, a space and the percentage in parentheses, sets
  the nutrient's field to exactly that number, the canonical unit and that percentage.
  This holds for each of the ten nutrients, for numbers below \<open>2^53\<close> (which the
  doubles of the code hold exactly); \<open>Protein: 25g (40%)\<close> and
  \<open>protein: 25g (40%)\<close> both give 25, g and 40.
\<close>

theorem labelled_value_extracted:
  assumes "list_all isDigit ds" "ds \<noteq> []" "list_all isDigit ps" "ps \<noteq> []"
    and "parseInt ds < 2 ^ 53" "parseInt ps < 2 ^ 53"
    and "map canonicalize step =
           map canonicalize (nutrientLabel k @ '': '' @ ds @ canonicalUnit k @ '' ('' @ ps @ ''%)'')"
  shows "getField k (extractStep step n) =
           \<lparr>value_f = parseInt ds, unit = canonicalUnit k, percentage = parseInt ps\<rparr>"
proof -
  have "map canonicalize step =
          map canonicalize ((nutrientLabel k @ '': '') @ ds @ (canonicalUnit k @ '' ('') @ ps @ ''%)'')"
    using assms(7) by (simp only: append_assoc)
  then obtain l' r1 where s1: "step = l' @ r1"
    and l: "map canonicalize l' = map canonicalize (nutrientLabel k @ '': '')"
    and r1: "map canonicalize r1 = map canonicalize (ds @ (canonicalUnit k @ '' ('') @ ps @ ''%)'')"
    by (blast dest: map_eq_appendD)
  from r1 obtain ds' r2 where s2: "r1 = ds' @ r2"
    and d': "map canonicalize ds' = map canonicalize ds"
    and r2: "map canonicalize r2 = map canonicalize ((canonicalUnit k @ '' ('') @ ps @ ''%)'')"
    by (blast dest: map_eq_appendD)
  from r2 obtain u' r3 where s3: "r2 = u' @ r3"
    and u: "map canonicalize u' = map canonicalize (canonicalUnit k @ '' ('')"
    and r3: "map canonicalize r3 = map canonicalize (ps @ ''%)'')"
    by (blast dest: map_eq_appendD)
  from r3 obtain ps' e' where s4: "r3 = ps' @ e'"
    and p': "map canonicalize ps' = map canonicalize ps"
    and e: "map canonicalize e' = map canonicalize ''%)''"
    by (blast dest: map_eq_appendD)
  have "ds' = ds" using assms(1) d' by (rule map_canonicalize_digits)
  moreover have "ps' = ps" using assms(3) p' by (rule map_canonicalize_digits)
  ultimately have step: "step = l' @ ds @ u' @ ps @ e'"
    by (simp add: s1 s2 s3 s4)
  have "match_here (pattern k) step = Some ([ds, ps], [])"
    unfolding step using l assms(1,2) u assms(3,4) e by (rule match_here_pattern)
  moreover have "step \<noteq> []" using assms(2) by (simp add: step)
  ultimately have "js_match (pattern k) step = Some [step, ds, ps]"
    by (rule js_match_whole)
  then show ?thesis
    by (simp add: getField_extractStep fieldOfMatch_def)
qed

theorem labelled_value_extracted_witness:
  "getField Protein (extractStep ''Protein: 25g (40%)'' initialNutrients)
     = \<lparr>value_f = 25, unit = ''g'', percentage = 40\<rparr>
   \<and> getField Protein (extractStep ''protein: 25g (40%)'' initialNutrients)
     = \<lparr>value_f = 25, unit = ''g'', percentage = 40\<rparr>
   \<and> getField Vitamin_A (extractStep ''VITAMIN A: 300MCG (33%)'' initialNutrients)
     = \<lparr>value_f = 300, unit = ''mcg'', percentage = 33\<rparr>"
proof -
  have d: "list_all isDigit ''25''" "''25'' \<noteq> []" "list_all isDigit ''40''" "''40'' \<noteq> []"
    "list_all isDigit ''300''" "''300'' \<noteq> []" "list_all isDigit ''33''" "''33'' \<noteq> []"
    by (simp_all add: isDigit_def)
  have v: "parseInt ''25'' = 25" "parseInt ''40'' = 40" "parseInt ''300'' = 300"
    "parseInt ''33'' = 33"
    by (simp_all add: parseInt_def isDigit_def digitVal_def)
  have b: "parseInt ''25'' < 2 ^ 53" "parseInt ''40'' < 2 ^ 53"
    "parseInt ''300'' < 2 ^ 53" "parseInt ''33'' < 2 ^ 53"
    by (simp_all add: v)
  have "getField Protein (extractStep ''Protein: 25g (40%)'' initialNutrients)
     = \<lparr>value_f = parseInt ''25'', unit = canonicalUnit Protein, percentage = parseInt ''40''\<rparr>"
    by (rule labelled_value_extracted [OF d(1-4) b(1,2)]) (simp add: eval_defs)
  moreover have "getField Protein (extractStep ''protein: 25g (40%)'' initialNutrients)
     = \<lparr>value_f = parseInt ''25'', unit = canonicalUnit Protein, percentage = parseInt ''40''\<rparr>"
    by (rule labelled_value_extracted [OF d(1-4) b(1,2)]) (simp add: eval_defs)
  moreover have "getField Vitamin_A (extractStep ''VITAMIN A: 300MCG (33%)'' initialNutrients)
     = \<lparr>value_f = parseInt ''300'', unit = canonicalUnit Vitamin_A, percentage = parseInt ''33''\<rparr>"
    by (rule labelled_value_extracted [OF d(5-8) b(3,4)]) (simp add: eval_defs)
  ultimately show ?thesis
    by (simp add: v)
qed

section \<open>Recipes that give a meal\<close>

text \<open>
  C5. The meals of the output are, as a multiset, the meals of exactly the recipes with
  at least one strictly positive extracted value. A recipe without steps, with an empty
  list of steps, or whose steps match none of the ten patterns has no positive value,
  and the output is the same as without it.
\<close>

theorem meals_of_qualifying_recipes:
  "mset (concat (map meals (buildHistory recipesData)))
     = mset (map mealOf (filter qualifies recipesData))
   \<and> (qualifies r \<longleftrightarrow> (\<exists>k. 0 < value_f (getField k (nutrientsOf r))))
   \<and> (steps r = None \<or> steps r = Some []
        \<or> (\<exists>ss. steps r = Some ss \<and> (\<forall>s \<in> set ss. \<forall>k. js_match (pattern k) s = None))
      \<longrightarrow> \<not> qualifies r \<and> buildHistory (xs @ r # ys) = buildHistory (xs @ ys))"
  using mset_meals_buildHistory [of recipesData] qualifies_iff [of r]
    no_match_not_qualifies [of r] buildHistory_skip [of r xs ys]
  by blast

theorem meals_of_qualifying_recipes_witness:
  "(let r1 = \<lparr>id_r = ''r1'',
              created_at = \<lparr>year = 2025, month = Jan, date = 3, hours = 13, minutes = 5\<rparr>,
              steps = Some [''Protein: 25g (40%)'']\<rparr>;
        r2 = \<lparr>id_r = ''r2'',
              created_at = \<lparr>year = 2025, month = Jan, date = 3, hours = 9, minutes = 30\<rparr>,
              steps = Some [''Mix well'']\<rparr>
    in map id_m (concat (map meals (buildHistory [r1, r2]))) = [''r1'']
     \<and> qualifies r1 \<and> \<not> qualifies r2
     \<and> buildHistory [r1, r2] = buildHistory [r1])"
proof -
  let ?r1 = "\<lparr>id_r = ''r1'',
              created_at = \<lparr>year = 2025, month = Jan, date = 3, hours = 13, minutes = 5\<rparr>,
              steps = Some [''Protein: 25g (40%)'']\<rparr>"
  let ?r2 = "\<lparr>id_r = ''r2'',
              created_at = \<lparr>year = 2025, month = Jan, date = 3, hours = 9, minutes = 30\<rparr>,
              steps = Some [''Mix well'']\<rparr>"
  have none: "js_match (pattern k) ''Mix well'' = None" for k
    by (cases k) (simp_all add: eval_defs)
  then have hyp: "steps ?r2 = None \<or> steps ?r2 = Some []
        \<or> (\<exists>ss. steps ?r2 = Some ss \<and> (\<forall>s \<in> set ss. \<forall>k. js_match (pattern k) s = None))"
    by simp
  have q1: "qualifies ?r1"
    by (simp add: eval_defs)
  have ids: "map id_m (concat (map meals (buildHistory [?r1]))) = [''r1'']"
    by (simp add: eval_defs)
  from meals_of_qualifying_recipes [of "[?r1, ?r2]" ?r2 "[?r1]" "[]"] hyp
  have "\<not> qualifies ?r2 \<and> buildHistory ([?r1] @ ?r2 # []) = buildHistory ([?r1] @ [])"
    by blast
  then have "\<not> qualifies ?r2" "buildHistory [?r1, ?r2] = buildHistory [?r1]"
    by simp_all
  with q1 ids show ?thesis
    by (simp add: Let_def)
qed

section \<open>A step that does not match\<close>

text \<open>
  C6. Steps in which a nutrient's pattern does not match as a whole (the label with a
  value but no percentage, or with a value that is not a number) leave that nutrient's
  field as it was: the zero default when no step of the recipe matches. Extraction is
  a total function, so no error is raised.
\<close>

theorem unmatched_steps_keep_field:
  assumes "\<forall>s \<in> set ss. js_match (pattern k) s = None"
  shows "getField k (fold extractStep ss n) = getField k n
       \<and> getField k (extractSteps ss) = \<lparr>value_f = 0, unit = canonicalUnit k, percentage = 0\<rparr>"
proof -
  have "getField k initialNutrients = \<lparr>value_f = 0, unit = canonicalUnit k, percentage = 0\<rparr>"
    by (cases k) (simp_all add: initialNutrients_def initialMicronutrients_def
        initialMacronutrients_def)
  with assms show ?thesis
    by (simp add: extractSteps_def getField_fold_no_match)
qed

theorem unmatched_steps_keep_field_witness:
  "getField Protein
     (extractSteps [''Protein: 25g'', ''Protein: lots g (40%)'', ''Protein: 25g, Iron: 3mg (17%)''])
     = \<lparr>value_f = 0, unit = ''g'', percentage = 0\<rparr>
   \<and> getField Iron
     (extractSteps [''Protein: 25g'', ''Protein: lots g (40%)'', ''Protein: 25g, Iron: 3mg (17%)''])
     = \<lparr>value_f = 3, unit = ''mg'', percentage = 17\<rparr>"
proof -
  let ?ss = "[''Protein: 25g'', ''Protein: lots g (40%)'', ''Protein: 25g, Iron: 3mg (17%)'']"
  have "\<forall>s \<in> set ?ss. js_match (pattern Protein) s = None"
    by (simp add: eval_defs)
  from unmatched_steps_keep_field [OF this, of initialNutrients]
  have "getField Protein (extractSteps ?ss) = \<lparr>value_f = 0, unit = ''g'', percentage = 0\<rparr>"
    by simp
  moreover have "getField Iron (extractSteps ?ss) = \<lparr>value_f = 3, unit = ''mg'', percentage = 17\<rparr>"
    by (simp add: eval_defs)
  ultimately show ?thesis
    by simp
qed

section \<open>A failed fetch\<close>

text \<open>
  C7. When the store answers with an error, the run ends in the catch and finally
  blocks: the history held before is kept as it was, the error is logged, and the
  loading indicator is cleared.
\<close>

theorem fetch_failure_keeps_history:
  assumes "error response = Some e"
  shows "nutrientHistory (fetchNutrientData True response st) = nutrientHistory st
       \<and> errorLog (fetchNutrientData True response st) = errorLog st @ [e]
       \<and> loading (fetchNutrientData True response st) = False"
  using assms by (simp add: fetchNutrientData_def)

theorem fetch_failure_keeps_history_witness:
  "error \<lparr>data = None, error = Some ''network''\<rparr> = Some ''network''
   \<and> nutrientHistory (fetchNutrientData True \<lparr>data = None, error = Some ''network''\<rparr>
        \<lparr>nutrientHistory = buildHistory
          [\<lparr>id_r = ''r1'',
            created_at = \<lparr>year = 2025, month = Jan, date = 3, hours = 13, minutes = 5\<rparr>,
            steps = Some [''Protein: 25g (40%)'']\<rparr>],
         loading = False, errorLog = []\<rparr>)
       = buildHistory
          [\<lparr>id_r = ''r1'',
            created_at = \<lparr>year = 2025, month = Jan, date = 3, hours = 13, minutes = 5\<rparr>,
            steps = Some [''Protein: 25g (40%)'']\<rparr>]
   \<and> errorLog (fetchNutrientData True \<lparr>data = None, error = Some ''network''\<rparr>
        \<lparr>nutrientHistory = buildHistory
          [\<lparr>id_r = ''r1'',
            created_at = \<lparr>year = 2025, month = Jan, date = 3, hours = 13, minutes = 5\<rparr>,
            steps = Some [''Protein: 25g (40%)'']\<rparr>],
         loading = False, errorLog = []\<rparr>)
       = [''network'']
   \<and> loading (fetchNutrientData True \<lparr>data = None, error = Some ''network''\<rparr>
        \<lparr>nutrientHistory = buildHistory
          [\<lparr>id_r = ''r1'',
            created_at = \<lparr>year = 2025, month = Jan, date = 3, hours = 13, minutes = 5\<rparr>,
            steps = Some [''Protein: 25g (40%)'']\<rparr>],
         loading = False, errorLog = []\<rparr>)
       = False"
  using fetch_failure_keeps_history
    [of "\<lparr>data = None, error = Some ''network''\<rparr>" "''network''"
        "\<lparr>nutrientHistory = buildHistory
          [\<lparr>id_r = ''r1'',
            created_at = \<lparr>year = 2025, month = Jan, date = 3, hours = 13, minutes = 5\<rparr>,
            steps = Some [''Protein: 25g (40%)'']\<rparr>],
          loading = False, errorLog = []\<rparr>"]
  by simp

section \<open>Days without meals\<close>

text \<open>
  C8. Every day of the output has at least one meal: no entry is emitted for a day
  with no qualifying recipe.
\<close>

theorem history_days_have_meals:
  "\<forall>d \<in> set (buildHistory recipesData). meals d \<noteq> []"
  by (auto simp: set_buildHistory meals_historyEntry)

theorem history_days_have_meals_witness:
  "buildHistory
      [\<lparr>id_r = ''r1'',
        created_at = \<lparr>year = 2025, month = Jan, date = 3, hours = 13, minutes = 5\<rparr>,
        steps = Some [''Protein: 25g (40%)'']\<rparr>,
       \<lparr>id_r = ''r2'',
        created_at = \<lparr>year = 2025, month = Jan, date = 2, hours = 9, minutes = 30\<rparr>,
        steps = None\<rparr>] \<noteq> []
   \<and> meals (hd (buildHistory
      [\<lparr>id_r = ''r1'',
        created_at = \<lparr>year = 2025, month = Jan, date = 3, hours = 13, minutes = 5\<rparr>,
        steps = Some [''Protein: 25g (40%)'']\<rparr>,
       \<lparr>id_r = ''r2'',
        created_at = \<lparr>year = 2025, month = Jan, date = 2, hours = 9, minutes = 30\<rparr>,
        steps = None\<rparr>])) \<noteq> []"
proof -
  let ?rs = "[\<lparr>id_r = ''r1'',
        created_at = \<lparr>year = 2025, month = Jan, date = 3, hours = 13, minutes = 5\<rparr>,
        steps = Some [''Protein: 25g (40%)'']\<rparr>,
       \<lparr>id_r = ''r2'',
        created_at = \<lparr>year = 2025, month = Jan, date = 2, hours = 9, minutes = 30\<rparr>,
        steps = None\<rparr>]"
  have "map day (buildHistory ?rs) = [''Jan 3'']"
    by (simp add: eval_defs)
  then have ne: "buildHistory ?rs \<noteq> []"
    by auto
  then have "hd (buildHistory ?rs) \<in> set (buildHistory ?rs)"
    by simp
  with history_days_have_meals [of ?rs] ne show ?thesis
    by blast
qed

section \<open>The numbers of a field\<close>

text \<open>
  C9. The specification says that every field of the output has a value of at least 0
  and a percentage between 0 and 100. The pattern takes any run of digits as the
  percentage and nothing clamps it: a step \<open>Vitamin C: 120mg (133%)\<close> gives the
  percentage 133, in the day's \<open>averageData\<close> and in its meal.
\<close>

theorem percentage_above_100:
  "percentage (vitamin_c (micronutrients (averageData (hd (buildHistory
       [\<lparr>id_r = ''r1'',
         created_at = \<lparr>year = 2025, month = Jan, date = 3, hours = 13, minutes = 5\<rparr>,
         steps = Some [''Vitamin C: 120mg (133%)'']\<rparr>]))))) = 133
   \<and> percentage (vitamin_c (micronutrients (hd (meals (hd (buildHistory
       [\<lparr>id_r = ''r1'',
         created_at = \<lparr>year = 2025, month = Jan, date = 3, hours = 13, minutes = 5\<rparr>,
         steps = Some [''Vitamin C: 120mg (133%)'']\<rparr>])))))) = 133
   \<and> \<not> (133 :: int) \<le> 100"
  by (simp add: eval_defs)

text \<open>
  C9, amended. Every field of the output (of an \<open>averageData\<close> or of a meal) has a
  value of at least 0 and a percentage of at least 0.
\<close>

theorem output_fields_nonnegative:
  "\<forall>n \<in> set (outputNutrients (buildHistory recipesData)). \<forall>k.
     0 \<le> value_f (getField k n) \<and> 0 \<le> percentage (getField k n)"
  using outputNutrients_subset [of recipesData] nonneg_nutrientsOf by blast

theorem output_fields_nonnegative_witness:
  "(let out = outputNutrients (buildHistory
          [\<lparr>id_r = ''r1'',
            created_at = \<lparr>year = 2025, month = Jan, date = 3, hours = 13, minutes = 5\<rparr>,
            steps = Some [''Vitamin C: 120mg (133%)'']\<rparr>])
    in length out = 2
     \<and> 0 \<le> value_f (getField Vitamin_C (out ! 1))
     \<and> 0 \<le> percentage (getField Vitamin_C (out ! 1)))"
proof -
  let ?out = "outputNutrients (buildHistory
          [\<lparr>id_r = ''r1'',
            created_at = \<lparr>year = 2025, month = Jan, date = 3, hours = 13, minutes = 5\<rparr>,
            steps = Some [''Vitamin C: 120mg (133%)'']\<rparr>])"
  have l: "length ?out = 2"
    by (simp add: eval_defs)
  then have "?out ! 1 \<in> set ?out"
    by simp
  with output_fields_nonnegative l show ?thesis
    unfolding Let_def by blast
qed

section \<open>The unit of a field\<close>

text \<open>
  C10. Every field of the output carries the unit the code writes for its nutrient:
  mcg for vitamin A, mg for vitamin C, calcium, iron, potassium and sodium, g for
  protein, carbs, fat and fiber, whatever the text of the steps.
\<close>

theorem output_units_canonical:
  "\<forall>n \<in> set (outputNutrients (buildHistory recipesData)). \<forall>k.
     unit (getField k n) = canonicalUnit k"
  using outputNutrients_subset [of recipesData] by (auto simp: unit_nutrientsOf)

theorem output_units_canonical_witness:
  "(let out = outputNutrients (buildHistory
          [\<lparr>id_r = ''r1'',
            created_at = \<lparr>year = 2025, month = Jan, date = 3, hours = 13, minutes = 5\<rparr>,
            steps = Some [''PROTEIN: 25G (40%)'']\<rparr>])
    in map (\<lambda>n. value_f (getField Protein n)) out = [25, 25]
     \<and> unit (getField Protein (out ! 0)) = ''g''
     \<and> unit (getField Protein (out ! 1)) = ''g''
     \<and> unit (getField Vitamin_A (out ! 1)) = ''mcg'')"
proof -
  let ?out = "outputNutrients (buildHistory
          [\<lparr>id_r = ''r1'',
            created_at = \<lparr>year = 2025, month = Jan, date = 3, hours = 13, minutes = 5\<rparr>,
            steps = Some [''PROTEIN: 25G (40%)'']\<rparr>])"
  have v: "map (\<lambda>n. value_f (getField Protein n)) ?out = [25, 25]"
    by (simp add: eval_defs)
  then have "length ?out = 2"
    by (metis length_map length_Cons list.size(3) numeral_2_eq_2)
  then have "?out ! 0 \<in> set ?out" "?out ! 1 \<in> set ?out"
    by simp_all
  with output_units_canonical [of "[\<lparr>id_r = ''r1'',
            created_at = \<lparr>year = 2025, month = Jan, date = 3, hours = 13, minutes = 5\<rparr>,
            steps = Some [''PROTEIN: 25G (40%)'']\<rparr>]"]
  have "unit (getField Protein (?out ! 0)) = canonicalUnit Protein"
    "unit (getField Protein (?out ! 1)) = canonicalUnit Protein"
    "unit (getField Vitamin_A (?out ! 1)) = canonicalUnit Vitamin_A"
    by blast+
  with v show ?thesis
    by (simp add: Let_def)
qed

end
